theory Spec2Isabelle
  imports Complex_Main "HOL-Library.Word"
begin

section \<open>The collaborators of mongo_ros.cpp\<close>

text \<open>
  The file \<^verbatim>\<open>src/mongo_ros.cpp\<close> is glue between the ROS parameter server and the
  MongoDB client driver. Both are external libraries; they are modelled as an
  environment the functions of the file are run against:
  \<^item> a \<open>node_handle\<close> is the view of the parameter server through a
    \<^verbatim>\<open>ros::NodeHandle\<close>: for each type, the keys for which \<^verbatim>\<open>nh.param\<close> finds a
    value of that type;
  \<^item> an \<open>env\<close> fixes what the process-wide running flag and the driver answer;
  \<^item> a \<open>world\<close> is the mutable state: the wall clock, the number of
    \<^verbatim>\<open>DBClientConnection\<close> objects constructed so far, and the trace of calls made
    to the collaborators.

  C++ \<^verbatim>\<open>int\<close> and \<^verbatim>\<open>unsigned\<close> are 32-bit words; the conversion between them keeps
  the bits. Wall-clock time and the \<^verbatim>\<open>float\<close> timeout are real numbers of seconds. A
  \<^verbatim>\<open>ros::WallDuration\<close> holds whole nanoseconds; the range limits of \<^verbatim>\<open>ros::WallTime\<close>
  and \<^verbatim>\<open>ros::WallDuration\<close> are not modelled.
\<close>

type_synonym c_int = "32 word"
type_synonym c_unsigned = "32 word"

record node_handle =
  string_param :: "string \<rightharpoonup> string"
  int_param :: "string \<rightharpoonup> c_int"
  bool_param :: "string \<rightharpoonup> bool"

datatype log_level = Debug | Info | Error

datatype bson = BString string | BInt int | BBool bool | BNull

type_synonym document = "(string \<times> bson) list"

datatype event =
    ParamRead string
  | NewConnection nat
  | Connect nat string
  | Auth nat string string string
  | Log log_level string
  | Sleep real
  | DropDatabase nat string
  | Query nat string document

record world =
  now :: real
  created :: nat
  trace :: "event list"

datatype connection = Conn (conn_id: nat)

datatype failure =
    ConnectException
  | DbConnectException
  | NullPointerDereference
  | CursorExhausted

record env =
  default_nh :: node_handle
  running :: "real \<Rightarrow> bool"
  connect_raises :: "nat \<Rightarrow> bool"
  connect_time :: "nat \<Rightarrow> real"
  sleep_time :: "nat \<Rightarrow> real \<Rightarrow> real"
  auth_outcome :: "nat \<Rightarrow> bool \<times> string"
  auth_time :: "nat \<Rightarrow> real"
  conn_failed :: "nat \<Rightarrow> bool"
  stored :: "string \<Rightarrow> document list"

definition emit :: "event \<Rightarrow> world \<Rightarrow> world" where
  "emit e w = w\<lparr>trace := trace w @ [e]\<rparr>"

definition elapse :: "real \<Rightarrow> world \<Rightarrow> world" where
  "elapse d w = w\<lparr>now := now w + d\<rparr>"

text \<open>\<^verbatim>\<open>ros::ok()\<close> and \<^verbatim>\<open>ros::WallTime::now()\<close>.\<close>

definition ros_ok :: "env \<Rightarrow> world \<Rightarrow> bool" where
  "ros_ok E w = running E (now w)"

definition wall_now :: "world \<Rightarrow> real" where
  "wall_now w = now w"

text \<open>
  \<^verbatim>\<open>ros::WallDuration(t)\<close>: the duration of \<open>t\<close> seconds in whole nanoseconds, the nearest
  one, as \<^verbatim>\<open>fromSec\<close> of roscpp computes it. A positive \<open>t\<close> below half a nanosecond is
  the duration zero. (Older releases of roscpp cut the fraction of a nanosecond off
  instead; whole seconds come out the same, and a timeout that is not positive stays
  not positive.)
\<close>

definition wall_duration :: "real \<Rightarrow> real" where
  "wall_duration t = of_int (round (t * 1000000000)) / 1000000000"

text \<open>
  \<^verbatim>\<open>ros::Duration(d).sleep()\<close> sleeps on ROS time, which need not be the wall clock the
  deadline is read from. The call is recorded, and the wall clock moves on by what the
  environment says this sleep takes: \<open>sleep_time E k d\<close> for a sleep of \<open>d\<close> asked for
  when \<open>k\<close> connection objects have been created.
\<close>

definition ros_sleep :: "env \<Rightarrow> real \<Rightarrow> world \<Rightarrow> world" where
  "ros_sleep E d w = elapse (sleep_time E (created w) d) (emit (Sleep d) w)"

text \<open>
  The driver. \<^verbatim>\<open>new mongo::DBClientConnection()\<close> yields an object not seen before;
  \<^verbatim>\<open>connect\<close> takes \<open>connect_time\<close> and either returns or raises
  \<^verbatim>\<open>ConnectException\<close>; \<^verbatim>\<open>auth\<close> takes \<open>auth_time\<close> and returns its success together
  with the error message; \<^verbatim>\<open>isFailed\<close> reads the state of the object.
\<close>

definition new_connection :: "world \<Rightarrow> connection \<times> world" where
  "new_connection w =
     (Conn (created w), emit (NewConnection (created w)) (w\<lparr>created := Suc (created w)\<rparr>))"

definition dbc_connect :: "env \<Rightarrow> connection \<Rightarrow> string \<Rightarrow> world \<Rightarrow> (failure + unit) \<times> world" where
  "dbc_connect E c address w =
     (if connect_raises E (conn_id c) then Inl ConnectException else Inr (),
      elapse (connect_time E (conn_id c)) (emit (Connect (conn_id c) address) w))"

definition dbc_auth ::
  "env \<Rightarrow> connection \<Rightarrow> string \<Rightarrow> string \<Rightarrow> string \<Rightarrow> world \<Rightarrow> (bool \<times> string) \<times> world" where
  "dbc_auth E c db user pwd w =
     (auth_outcome E (conn_id c),
      elapse (auth_time E (conn_id c)) (emit (Auth (conn_id c) db user pwd) w))"

definition isFailed :: "env \<Rightarrow> connection \<Rightarrow> bool" where
  "isFailed E c = conn_failed E (conn_id c)"

definition dbc_dropDatabase :: "connection \<Rightarrow> string \<Rightarrow> world \<Rightarrow> world" where
  "dbc_dropDatabase c db w = emit (DropDatabase (conn_id c) db) w"

text \<open>
  A query with an equality filter yields, in stored order, the documents of the
  namespace that carry every field of the filter with the same value.
  \<^verbatim>\<open>BSONObj::getStringField\<close> is the empty string for a field that is missing or not a
  string.
\<close>

definition matches :: "document \<Rightarrow> document \<Rightarrow> bool" where
  "matches flt d = list_all (\<lambda>(k, v). map_of d k = Some v) flt"

definition dbc_query ::
  "env \<Rightarrow> connection \<Rightarrow> string \<Rightarrow> document \<Rightarrow> world \<Rightarrow> document list \<times> world" where
  "dbc_query E c ns flt w =
     (filter (matches flt) (stored E ns), emit (Query (conn_id c) ns flt) w)"

definition getStringField :: "document \<Rightarrow> string \<Rightarrow> string" where
  "getStringField obj k = (case map_of obj k of Some (BString s) \<Rightarrow> s | _ \<Rightarrow> '''')"

section \<open>Parameter resolution\<close>

text \<open>
  \<^verbatim>\<open>getParam<P>(nh, name, default_val)\<close> (lines 49-57): \<^verbatim>\<open>nh.param\<close> gives the stored
  value, or the default when there is none. The read is recorded in the trace; the
  debug line it prints is not.
\<close>

definition getParam :: "(string \<rightharpoonup> 'p) \<Rightarrow> string \<Rightarrow> 'p \<Rightarrow> world \<Rightarrow> 'p \<times> world" where
  "getParam view name default_val w =
     (case view name of Some val \<Rightarrow> val | None \<Rightarrow> default_val, emit (ParamRead name) w)"

text \<open>
  Line 99 passes the string literal \<^verbatim>\<open>""\<close> where a \<^verbatim>\<open>const bool&\<close> is expected. The
  array decays to a pointer to its first character, and the pointer, which is not
  null, converts to \<^verbatim>\<open>true\<close>.
\<close>

definition bool_of_literal :: "string \<Rightarrow> bool" where
  "bool_of_literal s = True"

definition getHost :: "node_handle \<Rightarrow> string \<Rightarrow> world \<Rightarrow> string \<times> world" where
  "getHost nh host w =
     (if host = '''' then getParam (string_param nh) ''warehouse_host'' ''localhost'' w
      else (host, w))"

definition getPort :: "node_handle \<Rightarrow> c_int \<Rightarrow> world \<Rightarrow> c_int \<times> world" where
  "getPort nh port w =
     (if port = 0 then getParam (int_param nh) ''warehouse_port'' 27017 w
      else (port, w))"

definition getName :: "node_handle \<Rightarrow> string \<Rightarrow> world \<Rightarrow> string \<times> world" where
  "getName nh name w =
     (if '''' = name then getParam (string_param nh) ''warehouse_database_name'' '''' w
      else (name, w))"

definition getUser :: "node_handle \<Rightarrow> string \<Rightarrow> world \<Rightarrow> string \<times> world" where
  "getUser nh user w =
     (if '''' = user then getParam (string_param nh) ''warehouse_user'' '''' w
      else (user, w))"

definition getAuthenticate :: "node_handle \<Rightarrow> bool \<Rightarrow> world \<Rightarrow> bool \<times> world" where
  "getAuthenticate nh authenticate w =
     (if False = authenticate
      then getParam (bool_param nh) ''warehouse_authenticate'' (bool_of_literal '''') w
      else (authenticate, w))"

definition getPwd :: "node_handle \<Rightarrow> string \<Rightarrow> world \<Rightarrow> string \<times> world" where
  "getPwd nh pwd w =
     (if '''' = pwd then getParam (string_param nh) ''warehouse_pwd'' '''' w
      else (pwd, w))"

section \<open>Connecting\<close>

text \<open>Decimal rendering of the port for \<^verbatim>\<open>boost::format("%1%:%2%")\<close> (line 141).\<close>

definition digit_char :: "nat \<Rightarrow> char" where
  "digit_char d = ''0123456789'' ! d"

fun show_nat :: "nat \<Rightarrow> string" where
  "show_nat n = (if n < 10 then [digit_char n] else show_nat (n div 10) @ [digit_char (n mod 10)])"

declare show_nat.simps [simp del]

definition show_int :: "int \<Rightarrow> string" where
  "show_int i = (if i < 0 then CHR ''-'' # show_nat (nat (- i)) else show_nat (nat i))"

record settings =
  db_address :: string
  db_authenticate :: bool
  db_name :: string
  db_user :: string
  db_pwd :: string

text \<open>
  One pass through the body of the \<^verbatim>\<open>while\<close> loop (lines 148-171). The result says
  whether the pass left the loop through \<^verbatim>\<open>break\<close>, which object \<^verbatim>\<open>conn\<close> now points
  to, and the world after the pass. The only exception the driver raises in the
  \<^verbatim>\<open>try\<close> block is \<^verbatim>\<open>ConnectException\<close>, which the handler catches.
\<close>

definition attempt :: "env \<Rightarrow> settings \<Rightarrow> world \<Rightarrow> bool \<times> connection \<times> world" where
  "attempt E s w =
     (let (c, w1) = new_connection w;
          w2 = emit (Log Debug (''Connecting to db at '' @ db_address s)) w1;
          (r, w3) = dbc_connect E c (db_address s) w2
      in case r of
           Inl e \<Rightarrow> (False, c, ros_sleep E 1 w3)
         | Inr u \<Rightarrow>
             let w6 =
               (if db_authenticate s then
                  let w4 = emit (Log Info ''Authing'') w3;
                      (a, w5) = dbc_auth E c (db_name s) (db_user s) (db_pwd s) w4
                  in if \<not> fst a
                     then emit (Log Error (''Mongo authentication failed '' @ snd a)) w5
                     else w5
                else w3)
             in if \<not> isFailed E c
                then (True, c, emit (Log Info ''connected'') w6)
                else (False, c, w6))"

text \<open>
  The loop of lines 146-172. \<open>conn\<close> is the shared pointer, \<open>None\<close> while it is null.
  The loop need not end: not returning is the value \<open>None\<close>.
\<close>

partial_function (option) retry_loop ::
  "env \<Rightarrow> settings \<Rightarrow> real \<Rightarrow> connection option \<Rightarrow> world \<Rightarrow> (connection option \<times> world) option"
where
  "retry_loop E s end_time conn w =
     (if ros_ok E w \<and> wall_now w < end_time then
        (let r = attempt E s w in
         if fst r then Some (Some (fst (snd r)), snd (snd r))
         else retry_loop E s end_time (Some (fst (snd r))) (snd (snd r)))
      else Some (conn, w))"

declare retry_loop.simps [code]

text \<open>
  Lines 173-177. Dereferencing the null pointer has no defined behaviour; the model
  gives it an outcome of its own.
\<close>

definition after_loop ::
  "env \<Rightarrow> real \<Rightarrow> connection option \<Rightarrow> world \<Rightarrow> (failure + connection) \<times> world" where
  "after_loop E end_time conn w =
     (case conn of
        None \<Rightarrow> (Inl NullPointerDereference, w)
      | Some c \<Rightarrow>
          if isFailed E c \<or> wall_now w > end_time then (Inl DbConnectException, w)
          else (Inr c, emit (Log Debug ''Successfully connected to db'') w))"

text \<open>
  \<^verbatim>\<open>makeDbConnection\<close> (lines 113-178). The lines that print the resolved settings
  (130-138) are output only and are left out.
\<close>

definition makeDbConnection ::
  "env \<Rightarrow> node_handle \<Rightarrow> string \<Rightarrow> c_unsigned \<Rightarrow> real \<Rightarrow> string \<Rightarrow> bool \<Rightarrow> string \<Rightarrow> string \<Rightarrow>
   world \<Rightarrow> ((failure + connection) \<times> world) option" where
  "makeDbConnection E nh host port timeout name authenticate user pwd w =
     (let (host', w1) = getHost nh host w;
          (port', w2) = getPort nh port w1;
          (authenticate', w3) = getAuthenticate nh authenticate w2;
          (name', w4) = getName nh name w3;
          (user', w5) = getUser nh user w4;
          (pwd', w6) = getPwd nh pwd w5;
          s = \<lparr>db_address = host' @ '':'' @ show_int (sint port'),
               db_authenticate = authenticate', db_name = name',
               db_user = user', db_pwd = pwd'\<rparr>;
          end_time = wall_now w6 + wall_duration timeout
      in case retry_loop E s end_time None w6 of
           None \<Rightarrow> None
         | Some (conn, w7) \<Rightarrow> Some (after_loop E end_time conn w7))"

section \<open>Dropping a database and looking up a message type\<close>

text \<open>
  The four-argument call of line 190 relies on the default arguments that the header
  \<^verbatim>\<open>mongo_ros/mongo_ros.h\<close> declares for \<^verbatim>\<open>name\<close>, \<^verbatim>\<open>authenticate\<close>, \<^verbatim>\<open>user\<close> and \<^verbatim>\<open>pwd\<close>.
  The header is not part of the sources at hand, so the four values are a parameter.
\<close>

record header_defaults =
  default_name :: string
  default_authenticate :: bool
  default_user :: string
  default_pwd :: string

definition dropDatabase4 ::
  "env \<Rightarrow> header_defaults \<Rightarrow> string \<Rightarrow> string \<Rightarrow> c_unsigned \<Rightarrow> real \<Rightarrow> world \<Rightarrow>
   ((failure + unit) \<times> world) option" where
  "dropDatabase4 E h db host port timeout w =
     (let nh = default_nh E in
      case makeDbConnection E nh host port timeout
             (default_name h) (default_authenticate h) (default_user h) (default_pwd h) w of
        None \<Rightarrow> None
      | Some (Inl e, w1) \<Rightarrow> Some (Inl e, w1)
      | Some (Inr c, w1) \<Rightarrow> Some (Inr (), dbc_dropDatabase c db w1))"

definition dropDatabase1 ::
  "env \<Rightarrow> header_defaults \<Rightarrow> string \<Rightarrow> world \<Rightarrow> ((failure + unit) \<times> world) option" where
  "dropDatabase1 E h db w = dropDatabase4 E h db '''' 0 60 w"

text \<open>
  \<^verbatim>\<open>messageType\<close> (lines 194-201). \<^verbatim>\<open>cursor->next()\<close> on a cursor with no document is
  a fault inside the driver.
\<close>

definition messageType ::
  "env \<Rightarrow> connection \<Rightarrow> string \<Rightarrow> string \<Rightarrow> world \<Rightarrow> (failure + string) \<times> world" where
  "messageType E conn db coll w =
     (let ns = db @ ''.ros_message_collections'';
          (cursor, w1) = dbc_query E conn ns [(''name'', BString coll)] w
      in case cursor of
           [] \<Rightarrow> (Inl CursorExhausted, w1)
         | obj # rest \<Rightarrow> (Inr (getStringField obj ''type''), w1))"

section \<open>Notions used in the statements\<close>


text \<open>The drop-database commands in a trace.\<close>

fun is_drop :: "event \<Rightarrow> bool" where
  "is_drop (DropDatabase c db) = True"
| "is_drop e = False"

section \<open>Concrete environments\<close>

text \<open>
  A parameter server with no entry, a world at time zero, and a server that cannot be
  reached: every \<^verbatim>\<open>connect\<close> raises at once and leaves its object failed, and every
  sleep takes the wall time asked for. The other environments used below are variations
  of it.
\<close>

definition no_params :: node_handle where
  "no_params = \<lparr>string_param = Map.empty, int_param = Map.empty, bool_param = Map.empty\<rparr>"

definition start :: world where
  "start = \<lparr>now = 0, created = 0, trace = []\<rparr>"

definition unreachable_env :: env where
  "unreachable_env =
     \<lparr>default_nh = no_params, running = (\<lambda>t. True), connect_raises = (\<lambda>n. True),
      connect_time = (\<lambda>n. 0), sleep_time = (\<lambda>n d. d), auth_outcome = (\<lambda>n. (True, '''')), auth_time = (\<lambda>n. 0),
      conn_failed = (\<lambda>n. True), stored = (\<lambda>ns. [])\<rparr>"

definition reachable_env :: env where
  "reachable_env =
     unreachable_env\<lparr>connect_raises := (\<lambda>n. False), conn_failed := (\<lambda>n. False),
                      connect_time := (\<lambda>n. 1 / 4)\<rparr>"

text \<open>
  A server that answers, but only after five seconds; and a server that cannot be
  reached, tried by a process that is shut down before one second has passed.
\<close>

definition slow_env :: env where
  "slow_env = reachable_env\<lparr>connect_time := (\<lambda>n. 5)\<rparr>"

definition stopping_env :: env where
  "stopping_env = unreachable_env\<lparr>running := (\<lambda>t. t < 1)\<rparr>"

text \<open>
  Two more servers that cannot be reached: one where \<^verbatim>\<open>connect\<close> needs a hundred seconds
  to give up, and one whose connection objects do not report the failed state.
\<close>

definition blackhole_env :: env where
  "blackhole_env = unreachable_env\<lparr>connect_time := (\<lambda>n. 100)\<rparr>"

definition unfailed_env :: env where
  "unfailed_env = unreachable_env\<lparr>conn_failed := (\<lambda>n. False)\<rparr>"

text \<open>
  A server that answers and refuses the credentials, at once or after five seconds; a
  server holding a catalogue of two message collections; and a header that declares
  the unset values as defaults.
\<close>

definition denying_env :: env where
  "denying_env = reachable_env\<lparr>auth_outcome := (\<lambda>n. (False, ''denied''))\<rparr>"

definition slow_denying_env :: env where
  "slow_denying_env = denying_env\<lparr>connect_time := (\<lambda>n. 5)\<rparr>"

definition catalogue_env :: env where
  "catalogue_env =
     reachable_env\<lparr>stored := (\<lambda>ns. if ns = ''robots.ros_message_collections''
        then [[(''name'', BString ''scans''), (''type'', BString ''sensor_msgs/LaserScan'')],
              [(''name'', BString ''poses''), (''type'', BString ''geometry_msgs/Pose'')]]
        else [])\<rparr>"

definition no_defaults :: header_defaults where
  "no_defaults =
     \<lparr>default_name = '''', default_authenticate = False, default_user = '''', default_pwd = ''''\<rparr>"

section \<open>Basic facts\<close>

lemmas getter_defs =
  getHost_def getPort_def getAuthenticate_def getName_def getUser_def getPwd_def

lemmas example_defs =
  no_params_def start_def unreachable_env_def reachable_env_def slow_env_def stopping_env_def
  blackhole_env_def unfailed_env_def denying_env_def slow_denying_env_def catalogue_env_def
  no_defaults_def

lemmas run_defs =
  getParam_def bool_of_literal_def attempt_def ros_ok_def wall_now_def new_connection_def
  emit_def elapse_def ros_sleep_def dbc_connect_def dbc_auth_def isFailed_def after_loop_def
  wall_duration_def

lemma emit_fields [simp]:
  "now (emit e w) = now w" "created (emit e w) = created w" "trace (emit e w) = trace w @ [e]"
  by (simp_all add: emit_def)

lemma elapse_fields [simp]:
  "now (elapse d w) = now w + d" "created (elapse d w) = created w" "trace (elapse d w) = trace w"
  by (simp_all add: elapse_def)

text \<open>
  Whole seconds are kept, and a timeout that is not positive gives a duration that is
  not positive.
\<close>

lemma wall_duration_of_int: "wall_duration (of_int k) = of_int k"
proof -
  have "(of_int k :: real) * 1000000000 = of_int (k * 1000000000)" by simp
  then have "round ((of_int k :: real) * 1000000000) = k * 1000000000"
    by (simp only: round_of_int)
  then show ?thesis by (simp add: wall_duration_def)
qed

lemma wall_duration_nonpos: "t \<le> 0 \<Longrightarrow> wall_duration t \<le> 0"
proof -
  assume "t \<le> 0"
  then have "t * 1000000000 \<le> 0" by simp
  then have "round (t * 1000000000) \<le> round (0::real)" by (rule round_mono)
  then show ?thesis by (simp add: wall_duration_def)
qed

text \<open>Reading parameters neither takes time nor creates connection objects.\<close>

lemma getter_clock:
  "now (snd (getHost nh host w)) = now w \<and> created (snd (getHost nh host w)) = created w"
  "now (snd (getPort nh port w)) = now w \<and> created (snd (getPort nh port w)) = created w"
  "now (snd (getAuthenticate nh a w)) = now w \<and> created (snd (getAuthenticate nh a w)) = created w"
  "now (snd (getName nh name w)) = now w \<and> created (snd (getName nh name w)) = created w"
  "now (snd (getUser nh user w)) = now w \<and> created (snd (getUser nh user w)) = created w"
  "now (snd (getPwd nh pwd w)) = now w \<and> created (snd (getPwd nh pwd w)) = created w"
  by (simp_all add: getter_defs getParam_def)

text \<open>
  \<open>makeDbConnection\<close> is the loop, started with a null pointer at the time of the call,
  followed by the check after the loop.
\<close>

lemma makeDbConnection_split:
  "\<exists>s w6. now w6 = now w \<and> created w6 = created w
      \<and> db_authenticate s = fst (getAuthenticate nh authenticate w)
      \<and> (\<forall>E. makeDbConnection E nh host port timeout name authenticate user pwd w =
          (case retry_loop E s (now w + wall_duration timeout) None w6 of
             None \<Rightarrow> None
           | Some (conn, w7) \<Rightarrow> Some (after_loop E (now w + wall_duration timeout) conn w7)))"
proof -
  obtain h w1 where g1: "getHost nh host w = (h, w1)" by (cases "getHost nh host w")
  obtain p w2 where g2: "getPort nh port w1 = (p, w2)" by (cases "getPort nh port w1")
  obtain a w3 where g3: "getAuthenticate nh authenticate w2 = (a, w3)"
    by (cases "getAuthenticate nh authenticate w2")
  obtain n w4 where g4: "getName nh name w3 = (n, w4)" by (cases "getName nh name w3")
  obtain u w5 where g5: "getUser nh user w4 = (u, w5)" by (cases "getUser nh user w4")
  obtain q w6 where g6: "getPwd nh pwd w5 = (q, w6)" by (cases "getPwd nh pwd w5")
  have c1: "now w1 = now w \<and> created w1 = created w"
    using getter_clock(1)[of nh host w] g1 by simp
  have c2: "now w2 = now w1 \<and> created w2 = created w1"
    using getter_clock(2)[of nh port w1] g2 by simp
  have c3: "now w3 = now w2 \<and> created w3 = created w2"
    using getter_clock(3)[of nh authenticate w2] g3 by simp
  have c4: "now w4 = now w3 \<and> created w4 = created w3"
    using getter_clock(4)[of nh name w3] g4 by simp
  have c5: "now w5 = now w4 \<and> created w5 = created w4"
    using getter_clock(5)[of nh user w4] g5 by simp
  have c6: "now w6 = now w5 \<and> created w6 = created w5"
    using getter_clock(6)[of nh pwd w5] g6 by simp
  have a: "a = fst (getAuthenticate nh authenticate w)"
    using g3 by (auto simp: getAuthenticate_def getParam_def split: if_splits)
  let ?s = "\<lparr>db_address = h @ '':'' @ show_int (sint p), db_authenticate = a, db_name = n,
              db_user = u, db_pwd = q\<rparr>"
  have "makeDbConnection E nh host port timeout name authenticate user pwd w =
          (case retry_loop E ?s (now w + wall_duration timeout) None w6 of
             None \<Rightarrow> None
           | Some (conn, w7) \<Rightarrow> Some (after_loop E (now w + wall_duration timeout) conn w7))" for E
    using c1 c2 c3 c4 c5 c6
    by (simp add: makeDbConnection_def g1 g2 g3 g4 g5 g6 wall_now_def Let_def
             cong: option.case_cong)
  moreover have "now w6 = now w \<and> created w6 = created w"
    using c1 c2 c3 c4 c5 c6 by simp
  moreover have "db_authenticate ?s = fst (getAuthenticate nh authenticate w)"
    using a by simp
  ultimately show ?thesis by blast
qed

section \<open>Parameter resolution: explicit arguments and defaults\<close>

text \<open>
  With an unset argument and no stored value, host, port, database name, user and
  password resolve to \<open>localhost\<close>, \<open>27017\<close> and three empty strings.
\<close>

lemma unset_defaults:
  "string_param nh ''warehouse_host'' = None \<Longrightarrow> fst (getHost nh '''' w) = ''localhost''"
  "int_param nh ''warehouse_port'' = None \<Longrightarrow> fst (getPort nh 0 w) = 27017"
  "string_param nh ''warehouse_database_name'' = None \<Longrightarrow> fst (getName nh '''' w) = ''''"
  "string_param nh ''warehouse_user'' = None \<Longrightarrow> fst (getUser nh '''' w) = ''''"
  "string_param nh ''warehouse_pwd'' = None \<Longrightarrow> fst (getPwd nh '''' w) = ''''"
  by (simp_all add: getter_defs getParam_def)

text \<open>
  C3. Claimed: with the argument unset and no stored value every resolver returns the
  hard-coded default, which for \<open>authenticate\<close> is \<open>false\<close>. The other five resolvers do
  (\<open>unset_defaults\<close>); \<open>getAuthenticate\<close> does not. On a parameter server with no entry,
  \<open>getAuthenticate\<close> called with \<open>false\<close> reads the parameter and returns \<open>true\<close>: the
  default handed to \<open>getParam\<close> on line 99 is the string literal \<^verbatim>\<open>""\<close>, not \<^verbatim>\<open>false\<close>.
\<close>

theorem getAuthenticate_unset_default_is_true:
  "getAuthenticate no_params False start =
     (True, \<lparr>now = 0, created = 0, trace = [ParamRead ''warehouse_authenticate'']\<rparr>)"
  by (simp add: getAuthenticate_def getParam_def bool_of_literal_def emit_def example_defs)

text \<open>
  C4. An explicit argument that differs from the unset value of its type (a non-empty
  string, a non-zero port, \<open>true\<close>) is returned as it is, and the world is unchanged:
  the parameter server is not read, and neither the stored value nor the default plays
  a part.
\<close>

theorem explicit_argument_wins:
  "(host \<noteq> '''' \<longrightarrow> getHost nh host w = (host, w)) \<and>
   (port \<noteq> 0 \<longrightarrow> getPort nh port w = (port, w)) \<and>
   (name \<noteq> '''' \<longrightarrow> getName nh name w = (name, w)) \<and>
   (user \<noteq> '''' \<longrightarrow> getUser nh user w = (user, w)) \<and>
   (authenticate \<longrightarrow> getAuthenticate nh authenticate w = (authenticate, w)) \<and>
   (pwd \<noteq> '''' \<longrightarrow> getPwd nh pwd w = (pwd, w))"
  by (auto simp: getter_defs)

theorem explicit_argument_wins_witness:
  "''db.example'' \<noteq> '''' \<and> (27018 :: c_int) \<noteq> 0 \<and> ''robot'' \<noteq> '''' \<and> ''alice'' \<noteq> ''''
   \<and> True \<and> ''secret'' \<noteq> ''''
   \<and> getHost no_params ''db.example'' start = (''db.example'', start)
   \<and> getPort no_params 27018 start = (27018, start)
   \<and> getName no_params ''robot'' start = (''robot'', start)
   \<and> getUser no_params ''alice'' start = (''alice'', start)
   \<and> getAuthenticate no_params True start = (True, start)
   \<and> getPwd no_params ''secret'' start = (''secret'', start)"
  using explicit_argument_wins [of "''db.example''" no_params start 27018 "''robot''" "''alice''"
      True "''secret''"]
  by simp

section \<open>The outcome of makeDbConnection\<close>

text \<open>
  C2. Whatever the arguments and the environment, a handle that \<open>makeDbConnection\<close>
  returns is not in the failed state.
\<close>

theorem returned_handle_not_failed:
  assumes "makeDbConnection E nh host port timeout name authenticate user pwd w = Some (Inr c, w')"
  shows "\<not> isFailed E c"
proof -
  obtain s w6 where m: "makeDbConnection E nh host port timeout name authenticate user pwd w =
          (case retry_loop E s (now w + wall_duration timeout) None w6 of
             None \<Rightarrow> None
           | Some (conn, w7) \<Rightarrow> Some (after_loop E (now w + wall_duration timeout) conn w7))"
    using makeDbConnection_split by blast
  from assms m obtain conn w7 where
    "after_loop E (now w + wall_duration timeout) conn w7 = (Inr c, w')"
    by (auto split: option.splits)
  then show ?thesis
    by (auto simp: after_loop_def split: option.splits if_splits)
qed

theorem returned_handle_not_failed_witness:
  "fst (the (makeDbConnection reachable_env no_params ''db.example'' 27018 2 '''' False '''' ''''
               start)) = Inr (Conn 0)
   \<and> \<not> isFailed reachable_env (Conn 0)"
proof -
  have "map_option fst (makeDbConnection reachable_env no_params ''db.example'' 27018 2 '''' False
          '''' '''' start) = Some (Inr (Conn 0))"
    by (simp add: makeDbConnection_def example_defs getter_defs run_defs retry_loop.simps)
  then obtain w' where
    h: "makeDbConnection reachable_env no_params ''db.example'' 27018 2 '''' False '''' ''''
          start = Some (Inr (Conn 0), w')"
    by auto
  show ?thesis using returned_handle_not_failed [OF h] h by simp
qed

text \<open>
  C6. When the loop body never runs, because the timeout is zero or negative or because
  the running flag is already down at the call, no connection object is created and the
  check after the loop dereferences the null pointer: the outcome is that fault, not
  \<open>DbConnectException\<close>.
\<close>

theorem makeDbConnection_loop_skipped:
  assumes "timeout \<le> 0 \<or> \<not> running E (now w)"
  shows "\<exists>w'. makeDbConnection E nh host port timeout name authenticate user pwd w =
                 Some (Inl NullPointerDereference, w')
              \<and> created w' = created w \<and> now w' = now w"
proof -
  obtain s w6 where w6: "now w6 = now w" "created w6 = created w"
    and m: "makeDbConnection E nh host port timeout name authenticate user pwd w =
          (case retry_loop E s (now w + wall_duration timeout) None w6 of
             None \<Rightarrow> None
           | Some (conn, w7) \<Rightarrow> Some (after_loop E (now w + wall_duration timeout) conn w7))"
    using makeDbConnection_split by blast
  have "\<not> (ros_ok E w6 \<and> wall_now w6 < now w + wall_duration timeout)"
    using assms w6 wall_duration_nonpos[of timeout] by (auto simp: ros_ok_def wall_now_def)
  then have "retry_loop E s (now w + wall_duration timeout) None w6 = Some (None, w6)"
    by (subst retry_loop.simps) (simp only: if_False)
  then show ?thesis using m w6 by (simp add: after_loop_def)
qed

theorem makeDbConnection_loop_skipped_witness:
  "((0::real) \<le> 0 \<or> \<not> running reachable_env (now start))
   \<and> (\<exists>w'. makeDbConnection reachable_env no_params ''db.example'' 27018 0 '''' False '''' ''''
               start = Some (Inl NullPointerDereference, w')
            \<and> created w' = created start \<and> now w' = now start)"
  using makeDbConnection_loop_skipped [of 0 reachable_env start no_params "''db.example''" 27018
      "''''" False "''''" "''''"]
  by simp

text \<open>
  The same happens with a positive timeout too small to make a nanosecond: a tenth of
  a nanosecond is the duration zero, so the deadline is the time of the call.
\<close>

lemma tiny_timeout_skips_loop:
  "\<exists>w'. makeDbConnection E nh host port (1 / 10000000000) name authenticate user pwd w =
          Some (Inl NullPointerDereference, w')"
proof -
  have z: "wall_duration (1 / 10000000000) = 0" by (simp add: wall_duration_def round_def)
  obtain s w6 where w6: "now w6 = now w"
    and m: "makeDbConnection E nh host port (1 / 10000000000) name authenticate user pwd w =
          (case retry_loop E s (now w + wall_duration (1 / 10000000000)) None w6 of
             None \<Rightarrow> None
           | Some (conn, w7) \<Rightarrow>
               Some (after_loop E (now w + wall_duration (1 / 10000000000)) conn w7))"
    using makeDbConnection_split by blast
  have "\<not> (ros_ok E w6 \<and> wall_now w6 < now w + wall_duration (1 / 10000000000))"
    using w6 z by (simp add: wall_now_def)
  then have "retry_loop E s (now w + wall_duration (1 / 10000000000)) None w6 = Some (None, w6)"
    by (subst retry_loop.simps) (simp only: if_False)
  then show ?thesis using m by (simp add: after_loop_def)
qed

section \<open>The retry loop\<close>

text \<open>What one pass through the loop body does to the pointer, the counter and the clock.\<close>

lemma attempt_conn: "fst (snd (attempt E s w)) = Conn (created w)"
  by (simp add: attempt_def new_connection_def dbc_connect_def dbc_auth_def Let_def
           split: sum.splits prod.splits)

lemma attempt_created: "created (snd (snd (attempt E s w))) = Suc (created w)"
  by (simp add: attempt_def new_connection_def dbc_connect_def dbc_auth_def ros_sleep_def Let_def
           split: prod.splits)

lemma attempt_now:
  "now (snd (snd (attempt E s w))) =
     now w + connect_time E (created w)
       + (if connect_raises E (created w) then sleep_time E (Suc (created w)) 1
          else if db_authenticate s then auth_time E (created w) else 0)"
  by (simp add: attempt_def new_connection_def dbc_connect_def dbc_auth_def ros_sleep_def Let_def
           split: prod.splits)

lemma attempt_break:
  "fst (attempt E s w) \<longleftrightarrow> \<not> connect_raises E (created w) \<and> \<not> conn_failed E (created w)"
  by (simp add: attempt_def new_connection_def dbc_connect_def dbc_auth_def isFailed_def Let_def
           split: prod.splits)



lemma retry_loop_stop:
  "\<not> (ros_ok E w \<and> wall_now w < e) \<Longrightarrow> retry_loop E s e conn w = Some (conn, w)"
  by (subst retry_loop.simps) (simp only: if_False)

lemma retry_loop_break:
  "ros_ok E w \<Longrightarrow> wall_now w < e \<Longrightarrow> fst (attempt E s w) \<Longrightarrow>
   retry_loop E s e conn w = Some (Some (fst (snd (attempt E s w))), snd (snd (attempt E s w)))"
  by (subst retry_loop.simps) (simp add: Let_def)

lemma retry_loop_again:
  "ros_ok E w \<Longrightarrow> wall_now w < e \<Longrightarrow> \<not> fst (attempt E s w) \<Longrightarrow>
   retry_loop E s e conn w =
     retry_loop E s e (Some (fst (snd (attempt E s w)))) (snd (snd (attempt E s w)))"
  by (subst retry_loop.simps) (simp add: Let_def)

lemma retry_loop_invariant_aux:
  assumes a: "retry_loop E s e conn w = Some y"
  shows "I conn w \<longrightarrow>
          (\<forall>c v. I c v \<longrightarrow> ros_ok E v \<longrightarrow> wall_now v < e \<longrightarrow>
               I (Some (fst (snd (attempt E s v)))) (snd (snd (attempt E s v)))) \<longrightarrow>
          I (fst y) (snd y)"
proof (induction rule: retry_loop.raw_induct[OF _ a])
  case (1 loop E s e conn w y)
  show ?case
  proof (cases "ros_ok E w \<and> wall_now w < e")
    case False
    with "1.hyps" have "y = (conn, w)" by (simp split: if_splits)
    then show ?thesis by simp
  next
    case True
    show ?thesis
    proof (cases "fst (attempt E s w)")
      case brk: True
      with True "1.hyps" have "y = (Some (fst (snd (attempt E s w))), snd (snd (attempt E s w)))"
        by (simp add: Let_def)
      with True show ?thesis by simp
    next
      case nobrk: False
      with True "1.hyps"
      have "loop E s e (Some (fst (snd (attempt E s w)))) (snd (snd (attempt E s w))) = Some y"
        by (simp add: Let_def)
      from "1.IH"[OF this] True show ?thesis by blast
    qed
  qed
qed

lemma retry_loop_invariant:
  assumes "retry_loop E s e conn w = Some (conn', w')"
    and "I conn w"
    and "\<And>c v. I c v \<Longrightarrow> ros_ok E v \<Longrightarrow> wall_now v < e \<Longrightarrow>
           I (Some (fst (snd (attempt E s v)))) (snd (snd (attempt E s v)))"
  shows "I conn' w'"
  using retry_loop_invariant_aux[OF assms(1), of I] assms(2,3) by simp




lemmas eval_defs = makeDbConnection_def example_defs getter_defs run_defs retry_loop.simps

lemma port_27018: "show_int 27018 = ''27018''"
  by (simp add: show_int_def show_nat.simps digit_char_def)







section \<open>Exceptions and authentication inside the loop\<close>

lemma after_loop_fst:
  "fst (after_loop E e conn w) =
     (case conn of
        None \<Rightarrow> Inl NullPointerDereference
      | Some c \<Rightarrow> if conn_failed E (conn_id c) \<or> e < now w then Inl DbConnectException else Inr c)"
  by (simp add: after_loop_def isFailed_def wall_now_def split: option.splits)





text \<open>Changing what \<^verbatim>\<open>auth\<close> answers changes the trace and nothing else.\<close>

lemma attempt_auth_failed:
  assumes "db_authenticate s" "\<not> connect_raises E (created w)"
    "\<not> fst (auth_outcome E (created w))" "\<not> conn_failed E (created w)"
  shows "attempt E s w =
     (True, Conn (created w),
      w\<lparr>now := now w + connect_time E (created w) + auth_time E (created w),
        created := Suc (created w),
        trace := trace w @ [NewConnection (created w),
                            Log Debug (''Connecting to db at '' @ db_address s),
                            Connect (created w) (db_address s),
                            Log Info ''Authing'',
                            Auth (created w) (db_name s) (db_user s) (db_pwd s),
                            Log Error (''Mongo authentication failed ''
                                         @ snd (auth_outcome E (created w))),
                            Log Info ''connected'']\<rparr>)"
  using assms
  by (simp add: attempt_def new_connection_def dbc_connect_def dbc_auth_def isFailed_def
        emit_def elapse_def Let_def)

lemma retry_loop_auth_aux:
  assumes a: "retry_loop E s e conn w = Some y"
  shows "\<forall>v::world. now v = now w \<and> created v = created w \<longrightarrow>
           (\<exists>v'. retry_loop (E\<lparr>auth_outcome := ao\<rparr>) s e conn v = Some (fst y, v')
                 \<and> now v' = now (snd y) \<and> created v' = created (snd y))"
proof (induction rule: retry_loop.raw_induct[OF _ a])
  case (1 loop E s e conn w y)
  let ?E = "E\<lparr>auth_outcome := ao\<rparr>"
  show ?case
  proof (intro allI impI)
    fix v :: world assume v: "now v = now w \<and> created v = created w"
    have test: "(ros_ok ?E v \<and> wall_now v < e) = (ros_ok E w \<and> wall_now w < e)"
      using v by (simp add: ros_ok_def wall_now_def)
    have brk: "fst (attempt ?E s v) = fst (attempt E s w)"
      using v by (simp add: attempt_break)
    have same: "fst (snd (attempt ?E s v)) = fst (snd (attempt E s w))"
      "now (snd (snd (attempt ?E s v))) = now (snd (snd (attempt E s w)))"
      "created (snd (snd (attempt ?E s v))) = created (snd (snd (attempt E s w)))"
      using v by (simp_all add: attempt_conn attempt_now attempt_created)
    show "\<exists>v'. retry_loop ?E s e conn v = Some (fst y, v')
                 \<and> now v' = now (snd y) \<and> created v' = created (snd y)"
    proof (cases "ros_ok E w \<and> wall_now w < e")
      case False
      with "1.hyps" have "y = (conn, w)" by (simp split: if_splits)
      moreover from False test have "retry_loop ?E s e conn v = Some (conn, v)"
        by (simp add: retry_loop_stop)
      ultimately show ?thesis using v by simp
    next
      case True
      with test have t: "ros_ok ?E v" "wall_now v < e" by simp_all
      show ?thesis
      proof (cases "fst (attempt E s w)")
        case b: True
        with True "1.hyps" have "y = (Some (fst (snd (attempt E s w))), snd (snd (attempt E s w)))"
          by (simp add: Let_def)
        moreover from b brk have "fst (attempt ?E s v)" by simp
        from retry_loop_break[OF t this, of conn]
        have "retry_loop ?E s e conn v =
                Some (Some (fst (snd (attempt ?E s v))), snd (snd (attempt ?E s v)))" .
        ultimately show ?thesis using same by simp
      next
        case nb: False
        with True "1.hyps"
        have "loop E s e (Some (fst (snd (attempt E s w)))) (snd (snd (attempt E s w))) = Some y"
          by (simp add: Let_def)
        from "1.IH"[OF this] same obtain v' where
          "retry_loop ?E s e (Some (fst (snd (attempt E s w)))) (snd (snd (attempt ?E s v)))
             = Some (fst y, v')" "now v' = now (snd y)" "created v' = created (snd y)"
          by blast
        moreover from nb brk have "\<not> fst (attempt ?E s v)" by simp
        from retry_loop_again[OF t this, of conn]
        have "retry_loop ?E s e conn v =
                retry_loop ?E s e (Some (fst (snd (attempt ?E s v)))) (snd (snd (attempt ?E s v)))" .
        ultimately show ?thesis using same by simp
      qed
    qed
  qed
qed

lemma makeDbConnection_auth_one_way:
  assumes "makeDbConnection E nh host port timeout name authenticate user pwd w = Some (r, w')"
  shows "\<exists>v'. makeDbConnection (E\<lparr>auth_outcome := ao\<rparr>) nh host port timeout name authenticate
                 user pwd w = Some (r, v')"
proof -
  let ?E = "E\<lparr>auth_outcome := ao\<rparr>"
  obtain s w6 where m: "\<And>E. makeDbConnection E nh host port timeout name authenticate user pwd w =
          (case retry_loop E s (now w + wall_duration timeout) None w6 of
             None \<Rightarrow> None
           | Some (conn, w7) \<Rightarrow> Some (after_loop E (now w + wall_duration timeout) conn w7))"
    using makeDbConnection_split by blast
  from assms m[of E] obtain conn w7 where
    loop: "retry_loop E s (now w + wall_duration timeout) None w6 = Some (conn, w7)"
    and post: "after_loop E (now w + wall_duration timeout) conn w7 = (r, w')"
    by (auto split: option.splits)
  from retry_loop_auth_aux[OF loop, of ao] obtain v7 where
    loop': "retry_loop ?E s (now w + wall_duration timeout) None w6 = Some (conn, v7)"
    and v7: "now v7 = now w7" "created v7 = created w7"
    by auto
  have "fst (after_loop ?E (now w + wall_duration timeout) conn v7) = fst (after_loop E (now w + wall_duration timeout) conn w7)"
    using v7 by (simp add: after_loop_fst split: option.splits)
  with post have "fst (after_loop ?E (now w + wall_duration timeout) conn v7) = r" by simp
  then obtain v' where "after_loop ?E (now w + wall_duration timeout) conn v7 = (r, v')"
    by (cases "after_loop ?E (now w + wall_duration timeout) conn v7") simp
  with m[of ?E] loop' show ?thesis by simp
qed

lemma makeDbConnection_auth_irrelevant:
  "map_option fst (makeDbConnection (E\<lparr>auth_outcome := ao\<rparr>) nh host port timeout name
        authenticate user pwd w) =
   map_option fst (makeDbConnection E nh host port timeout name authenticate user pwd w)"
proof (cases "makeDbConnection E nh host port timeout name authenticate user pwd w")
  case (Some y)
  then obtain r w' where
    "makeDbConnection E nh host port timeout name authenticate user pwd w = Some (r, w')"
    by (cases y) simp
  from makeDbConnection_auth_one_way[OF this, of ao] this show ?thesis by auto
next
  case None
  have "makeDbConnection (E\<lparr>auth_outcome := ao\<rparr>) nh host port timeout name authenticate user
          pwd w = None"
  proof (rule ccontr)
    assume "makeDbConnection (E\<lparr>auth_outcome := ao\<rparr>) nh host port timeout name authenticate
              user pwd w \<noteq> None"
    then obtain r v' where
      "makeDbConnection (E\<lparr>auth_outcome := ao\<rparr>) nh host port timeout name authenticate
              user pwd w = Some (r, v')" by auto
    from makeDbConnection_auth_one_way[OF this, of "auth_outcome E"] None
    show False by simp
  qed
  with None show ?thesis by simp
qed

text \<open>
  C5. Claimed: with authentication switched on, a refused authentication is only
  logged, and if the object is not failed the loop ends at once and that handle is
  returned. The last part does not hold when \<^verbatim>\<open>connect\<close> comes back after the deadline:
  against \<open>slow_denying_env\<close>, with a timeout of 2, \<^verbatim>\<open>auth\<close> is refused and the object is
  not failed, and the call raises \<open>DbConnectException\<close> at time 5.
\<close>

theorem auth_failure_counterexample:
  "makeDbConnection slow_denying_env no_params ''db.example'' 27018 2 ''robots'' True ''alice''
     ''secret'' start =
     Some (Inl DbConnectException,
           \<lparr>now = 5, created = 1,
              trace = [NewConnection 0, Log Debug ''Connecting to db at db.example:27018'',
                       Connect 0 ''db.example:27018'', Log Info ''Authing'',
                       Auth 0 ''robots'' ''alice'' ''secret'',
                       Log Error ''Mongo authentication failed denied'',
                       Log Info ''connected'']\<rparr>)
   \<and> auth_outcome slow_denying_env 0 = (False, ''denied'')
   \<and> \<not> isFailed slow_denying_env (Conn 0)"
  by (simp add: eval_defs port_27018)

text \<open>
  C5, as the code has it. In a pass of the loop with authentication switched on, where
  \<^verbatim>\<open>connect\<close> returns, \<^verbatim>\<open>auth\<close> returns \<open>false\<close> and the object is not failed, the
  refusal is written to the error log and nothing is raised; the loop ends with that
  pass and that object. The check after the loop then returns the object as the handle
  unless the clock is past the deadline, in which case it raises \<open>DbConnectException\<close>.
  What \<^verbatim>\<open>auth\<close> answers never changes the outcome of \<open>makeDbConnection\<close>.
\<close>

theorem auth_failure_not_fatal:
  "(ros_ok E w \<and> wall_now w < e \<and> db_authenticate s \<and> \<not> connect_raises E (created w)
      \<and> \<not> fst (auth_outcome E (created w)) \<and> \<not> conn_failed E (created w) \<longrightarrow>
      (\<exists>w'. retry_loop E s e conn w = Some (Some (Conn (created w)), w')
           \<and> created w' = Suc (created w)
           \<and> now w' = now w + connect_time E (created w) + auth_time E (created w)
           \<and> trace w' = trace w @ [NewConnection (created w),
                            Log Debug (''Connecting to db at '' @ db_address s),
                            Connect (created w) (db_address s),
                            Log Info ''Authing'',
                            Auth (created w) (db_name s) (db_user s) (db_pwd s),
                            Log Error (''Mongo authentication failed ''
                                         @ snd (auth_outcome E (created w))),
                            Log Info ''connected'']
           \<and> fst (after_loop E e (Some (Conn (created w))) w') =
               (if e < now w' then Inl DbConnectException else Inr (Conn (created w)))))
   \<and> map_option fst (makeDbConnection (E\<lparr>auth_outcome := ao\<rparr>) nh host port timeout name
          authenticate user pwd v) =
     map_option fst (makeDbConnection E nh host port timeout name authenticate user pwd v)"
proof -
  have "\<exists>w'. retry_loop E s e conn w = Some (Some (Conn (created w)), w')
           \<and> created w' = Suc (created w)
           \<and> now w' = now w + connect_time E (created w) + auth_time E (created w)
           \<and> trace w' = trace w @ [NewConnection (created w),
                            Log Debug (''Connecting to db at '' @ db_address s),
                            Connect (created w) (db_address s),
                            Log Info ''Authing'',
                            Auth (created w) (db_name s) (db_user s) (db_pwd s),
                            Log Error (''Mongo authentication failed ''
                                         @ snd (auth_outcome E (created w))),
                            Log Info ''connected'']
           \<and> fst (after_loop E e (Some (Conn (created w))) w') =
               (if e < now w' then Inl DbConnectException else Inr (Conn (created w)))"
    if t: "ros_ok E w" "wall_now w < e" and h: "db_authenticate s" "\<not> connect_raises E (created w)"
      "\<not> fst (auth_outcome E (created w))" "\<not> conn_failed E (created w)"
  proof -
    have "fst (attempt E s w)" using h by (simp add: attempt_break)
    from retry_loop_break[OF t this, of conn] show ?thesis
      using h by (simp add: attempt_auth_failed[OF h] after_loop_fst)
  qed
  then show ?thesis using makeDbConnection_auth_irrelevant by blast
qed

theorem auth_failure_not_fatal_witness:
  "ros_ok denying_env start \<and> wall_now start < 2
   \<and> db_authenticate \<lparr>db_address = ''db.example:27018'', db_authenticate = True,
          db_name = ''robots'', db_user = ''alice'', db_pwd = ''secret''\<rparr>
   \<and> \<not> connect_raises denying_env (created start)
   \<and> \<not> fst (auth_outcome denying_env (created start))
   \<and> \<not> conn_failed denying_env (created start)
   \<and> (\<exists>w'. retry_loop denying_env
         \<lparr>db_address = ''db.example:27018'', db_authenticate = True,
            db_name = ''robots'', db_user = ''alice'', db_pwd = ''secret''\<rparr> 2 None start =
         Some (Some (Conn 0), w')
       \<and> created w' = 1 \<and> now w' = 1 / 4
       \<and> trace w' = [NewConnection 0, Log Debug ''Connecting to db at db.example:27018'',
                      Connect 0 ''db.example:27018'', Log Info ''Authing'',
                      Auth 0 ''robots'' ''alice'' ''secret'',
                      Log Error ''Mongo authentication failed denied'',
                      Log Info ''connected'']
       \<and> fst (after_loop denying_env 2 (Some (Conn 0)) w') = Inr (Conn 0))"
  using auth_failure_not_fatal [THEN conjunct1, of denying_env start 2
      "\<lparr>db_address = ''db.example:27018'', db_authenticate = True,
         db_name = ''robots'', db_user = ''alice'', db_pwd = ''secret''\<rparr>" None]
  by (auto simp: example_defs ros_ok_def wall_now_def)

section \<open>dropDatabase and messageType\<close>

text \<open>Neither the resolvers nor the loop send a drop-database command.\<close>

lemma getter_no_drop:
  "filter is_drop (trace (snd (getHost nh host w))) = filter is_drop (trace w)"
  "filter is_drop (trace (snd (getPort nh port w))) = filter is_drop (trace w)"
  "filter is_drop (trace (snd (getAuthenticate nh a w))) = filter is_drop (trace w)"
  "filter is_drop (trace (snd (getName nh name w))) = filter is_drop (trace w)"
  "filter is_drop (trace (snd (getUser nh user w))) = filter is_drop (trace w)"
  "filter is_drop (trace (snd (getPwd nh pwd w))) = filter is_drop (trace w)"
  by (simp_all add: getter_defs getParam_def)

lemma attempt_no_drop:
  "filter is_drop (trace (snd (snd (attempt E s w)))) = filter is_drop (trace w)"
  by (simp add: attempt_def new_connection_def dbc_connect_def dbc_auth_def ros_sleep_def Let_def
           split: prod.splits)

lemma after_loop_no_drop:
  "filter is_drop (trace (snd (after_loop E e conn w))) = filter is_drop (trace w)"
  by (simp add: after_loop_def split: option.splits)

lemma makeDbConnection_no_drop:
  assumes "makeDbConnection E nh host port timeout name authenticate user pwd w = Some (r, w')"
  shows "filter is_drop (trace w') = filter is_drop (trace w)"
proof -
  obtain h w1 where g1: "getHost nh host w = (h, w1)" by (cases "getHost nh host w")
  obtain p w2 where g2: "getPort nh port w1 = (p, w2)" by (cases "getPort nh port w1")
  obtain a w3 where g3: "getAuthenticate nh authenticate w2 = (a, w3)"
    by (cases "getAuthenticate nh authenticate w2")
  obtain n w4 where g4: "getName nh name w3 = (n, w4)" by (cases "getName nh name w3")
  obtain u w5 where g5: "getUser nh user w4 = (u, w5)" by (cases "getUser nh user w4")
  obtain q w6 where g6: "getPwd nh pwd w5 = (q, w6)" by (cases "getPwd nh pwd w5")
  have d6: "filter is_drop (trace w6) = filter is_drop (trace w)"
    using getter_no_drop(1)[of nh host w] getter_no_drop(2)[of nh port w1]
      getter_no_drop(3)[of nh authenticate w2] getter_no_drop(4)[of nh name w3]
      getter_no_drop(5)[of nh user w4] getter_no_drop(6)[of nh pwd w5]
    by (simp add: g1 g2 g3 g4 g5 g6)
  let ?s = "\<lparr>db_address = h @ '':'' @ show_int (sint p), db_authenticate = a, db_name = n,
              db_user = u, db_pwd = q\<rparr>"
  let ?e = "wall_now w6 + wall_duration timeout"
  from assms obtain conn w7 where loop: "retry_loop E ?s ?e None w6 = Some (conn, w7)"
    and post: "after_loop E ?e conn w7 = (r, w')"
    by (auto simp: makeDbConnection_def g1 g2 g3 g4 g5 g6 Let_def split: option.splits)
  have "filter is_drop (trace w7) = filter is_drop (trace w6)"
    by (rule retry_loop_invariant[OF loop,
          of "\<lambda>c v. filter is_drop (trace v) = filter is_drop (trace w6)"])
       (simp_all add: attempt_no_drop)
  moreover have "filter is_drop (trace w') = filter is_drop (trace w7)"
    using after_loop_no_drop[of E ?e conn w7] post by simp
  ultimately show ?thesis using d6 by simp
qed

text \<open>
  C8. The one-argument \<open>dropDatabase\<close> is the four-argument one with empty host,
  port 0 and timeout 60. The four-argument form, and with it the other, calls
  \<open>makeDbConnection\<close>; when that returns a handle it sends one drop-database command
  for the given name on that handle, the only one in the trace since the call, and
  returns nothing; when \<open>makeDbConnection\<close> fails, with \<open>DbConnectException\<close> in
  particular, the failure is passed on as it is and no command is sent.
\<close>

theorem dropDatabase_forms:
  "dropDatabase1 E h db w = dropDatabase4 E h db '''' 0 60 w
   \<and> (\<forall>c w1. makeDbConnection E (default_nh E) host port timeout (default_name h)
                (default_authenticate h) (default_user h) (default_pwd h) w = Some (Inr c, w1) \<longrightarrow>
          dropDatabase4 E h db host port timeout w =
            Some (Inr (), w1\<lparr>trace := trace w1 @ [DropDatabase (conn_id c) db]\<rparr>)
          \<and> filter is_drop (trace w1 @ [DropDatabase (conn_id c) db]) =
              filter is_drop (trace w) @ [DropDatabase (conn_id c) db])
   \<and> (\<forall>x w1. makeDbConnection E (default_nh E) host port timeout (default_name h)
                (default_authenticate h) (default_user h) (default_pwd h) w = Some (Inl x, w1) \<longrightarrow>
          dropDatabase4 E h db host port timeout w = Some (Inl x, w1)
          \<and> filter is_drop (trace w1) = filter is_drop (trace w))
   \<and> (makeDbConnection E (default_nh E) host port timeout (default_name h)
                (default_authenticate h) (default_user h) (default_pwd h) w = None \<longrightarrow>
          dropDatabase4 E h db host port timeout w = None)"
  using makeDbConnection_no_drop[of E "default_nh E" host port timeout "default_name h"
          "default_authenticate h" "default_user h" "default_pwd h" w]
  by (auto simp: dropDatabase1_def dropDatabase4_def dbc_dropDatabase_def emit_def Let_def)

theorem dropDatabase_forms_witness:
  "map_option fst (makeDbConnection reachable_env (default_nh reachable_env) '''' 0 60
       (default_name no_defaults) (default_authenticate no_defaults) (default_user no_defaults)
       (default_pwd no_defaults) start) = Some (Inr (Conn 0))
   \<and> map_option (\<lambda>r. (fst r, filter is_drop (trace (snd r))))
        (dropDatabase1 reachable_env no_defaults ''robots'' start)
       = Some (Inr (), [DropDatabase 0 ''robots''])
   \<and> map_option fst (makeDbConnection stopping_env (default_nh stopping_env) '''' 0 60
       (default_name no_defaults) (default_authenticate no_defaults) (default_user no_defaults)
       (default_pwd no_defaults) start) = Some (Inl DbConnectException)
   \<and> map_option (\<lambda>r. (fst r, filter is_drop (trace (snd r))))
        (dropDatabase1 stopping_env no_defaults ''robots'' start)
       = Some (Inl DbConnectException, [])"
proof -
  have "map_option fst (makeDbConnection reachable_env (default_nh reachable_env) '''' 0 60
       (default_name no_defaults) (default_authenticate no_defaults) (default_user no_defaults)
       (default_pwd no_defaults) start) = Some (Inr (Conn 0))"
    by (simp add: eval_defs)
  then obtain w1 where a: "makeDbConnection reachable_env (default_nh reachable_env) '''' 0 60
       (default_name no_defaults) (default_authenticate no_defaults) (default_user no_defaults)
       (default_pwd no_defaults) start = Some (Inr (Conn 0), w1)"
    by auto
  have "map_option fst (makeDbConnection stopping_env (default_nh stopping_env) '''' 0 60
       (default_name no_defaults) (default_authenticate no_defaults) (default_user no_defaults)
       (default_pwd no_defaults) start) = Some (Inl DbConnectException)"
    by (simp add: eval_defs)
  then obtain w2 where b: "makeDbConnection stopping_env (default_nh stopping_env) '''' 0 60
       (default_name no_defaults) (default_authenticate no_defaults) (default_user no_defaults)
       (default_pwd no_defaults) start = Some (Inl DbConnectException, w2)"
    by auto
  have s: "filter is_drop (trace start) = []" by (simp add: start_def)
  from dropDatabase_forms [of reachable_env no_defaults "''robots''" start "''''" 0 60] a s
  have c: "map_option (\<lambda>r. (fst r, filter is_drop (trace (snd r))))
        (dropDatabase1 reachable_env no_defaults ''robots'' start)
       = Some (Inr (), [DropDatabase 0 ''robots''])"
    by simp
  from dropDatabase_forms [of stopping_env no_defaults "''robots''" start "''''" 0 60] b s
  have d: "map_option (\<lambda>r. (fst r, filter is_drop (trace (snd r))))
        (dropDatabase1 stopping_env no_defaults ''robots'' start)
       = Some (Inl DbConnectException, [])"
    by simp
  from a b c d show ?thesis by simp
qed

text \<open>
  C7. \<open>messageType\<close> sends one query, to the namespace made of the database name
  and \<^verbatim>\<open>.ros_message_collections\<close>, with the filter \<^verbatim>\<open>name = coll\<close>. If the namespace
  holds a document with that name, the result is the \<^verbatim>\<open>type\<close> field of such a
  document. If it holds none, the result is neither a string nor one of the exceptions
  of this library, but the fault of reading past the end of the cursor.
\<close>

theorem messageType_lookup:
  "trace (snd (messageType E conn db coll w)) =
     trace w @ [Query (conn_id conn) (db @ ''.ros_message_collections'') [(''name'', BString coll)]]
   \<and> ((\<forall>d \<in> set (stored E (db @ ''.ros_message_collections'')).
          map_of d ''name'' \<noteq> Some (BString coll)) \<longrightarrow>
        fst (messageType E conn db coll w) = Inl CursorExhausted)
   \<and> ((\<exists>d \<in> set (stored E (db @ ''.ros_message_collections'')).
          map_of d ''name'' = Some (BString coll)) \<longrightarrow>
        (\<exists>d \<in> set (stored E (db @ ''.ros_message_collections'')).
          map_of d ''name'' = Some (BString coll)
          \<and> fst (messageType E conn db coll w) = Inr (getStringField d ''type'')
          \<and> (\<forall>t. map_of d ''type'' = Some (BString t) \<longrightarrow>
                 fst (messageType E conn db coll w) = Inr t)))"
proof -
  let ?ns = "db @ ''.ros_message_collections''"
  let ?P = "\<lambda>d. map_of d ''name'' = Some (BString coll)"
  have m: "matches [(''name'', BString coll)] = ?P"
    by (rule ext) (simp add: matches_def)
  have r: "fst (messageType E conn db coll w) =
             (case filter ?P (stored E ?ns) of
                [] \<Rightarrow> Inl CursorExhausted | d # ds \<Rightarrow> Inr (getStringField d ''type''))"
    by (simp add: messageType_def dbc_query_def m Let_def split: list.splits)
  have t: "trace (snd (messageType E conn db coll w)) =
     trace w @ [Query (conn_id conn) ?ns [(''name'', BString coll)]]"
    by (simp add: messageType_def dbc_query_def Let_def split: list.splits)
  have none: "fst (messageType E conn db coll w) = Inl CursorExhausted"
    if "\<forall>d \<in> set (stored E ?ns). \<not> ?P d"
  proof -
    from that have "filter ?P (stored E ?ns) = []" by (simp add: filter_empty_conv)
    with r show ?thesis by simp
  qed
  have some: "\<exists>d \<in> set (stored E ?ns). ?P d
          \<and> fst (messageType E conn db coll w) = Inr (getStringField d ''type'')
          \<and> (\<forall>t. map_of d ''type'' = Some (BString t) \<longrightarrow>
                 fst (messageType E conn db coll w) = Inr t)"
    if "\<exists>d \<in> set (stored E ?ns). ?P d"
  proof -
    from that have "filter ?P (stored E ?ns) \<noteq> []" by (simp add: filter_empty_conv)
    then obtain d ds where f: "filter ?P (stored E ?ns) = d # ds"
      by (cases "filter ?P (stored E ?ns)") auto
    then have "d \<in> set (filter ?P (stored E ?ns))" by simp
    then have "d \<in> set (stored E ?ns)" "?P d" by simp_all
    moreover from r f have "fst (messageType E conn db coll w) = Inr (getStringField d ''type'')"
      by simp
    ultimately show ?thesis by (auto simp: getStringField_def)
  qed
  from t none some show ?thesis by blast
qed

theorem messageType_lookup_witness:
  "map (\<lambda>d. map_of d ''name'') (stored catalogue_env (''robots'' @ ''.ros_message_collections''))
     = [Some (BString ''scans''), Some (BString ''poses'')]
   \<and> fst (messageType catalogue_env (Conn 0) ''robots'' ''poses'' start) = Inr ''geometry_msgs/Pose''
   \<and> fst (messageType catalogue_env (Conn 0) ''robots'' ''maps'' start) = Inl CursorExhausted"
  using messageType_lookup [of catalogue_env "Conn 0" "''robots''" "''poses''" start]
    messageType_lookup [of catalogue_env "Conn 0" "''robots''" "''maps''" start]
  by (auto simp: example_defs)

end
